theory Spec2Isabelle
  imports Complex_Main
begin

section \<open>Python strings\<close>

text \<open>
  A Python \<open>str\<close> is a sequence of Unicode code points; \<open>len\<close> and slicing count
  code points.  A string is therefore a list of code points (natural numbers), so that
  the Thai literals of the source have their Python length.
\<close>

type_synonym pystr = "nat list"

text \<open>\<open>str.isspace\<close> on one code point: the characters \<open>str.strip()\<close> removes.\<close>

definition isspace :: "nat \<Rightarrow> bool" where
  "isspace c \<longleftrightarrow>
     (9 \<le> c \<and> c \<le> 13) \<or> (28 \<le> c \<and> c \<le> 32) \<or> c = 133 \<or> c = 160 \<or> c = 5760 \<or>
     (8192 \<le> c \<and> c \<le> 8202) \<or> c = 8232 \<or> c = 8233 \<or> c = 8239 \<or> c = 8287 \<or> c = 12288"

text \<open>\<open>s.strip()\<close>: leading and trailing whitespace removed.\<close>

definition strip :: "pystr \<Rightarrow> pystr" where
  "strip s = rev (dropWhile isspace (rev (dropWhile isspace s)))"

text \<open>The paragraph separator \<open>'\n\n'\<close>.\<close>

definition nn :: pystr where
  "nn = [10, 10]"

text \<open>
  \<open>text.split('\n\n')\<close>: the pieces between the non-overlapping occurrences of the
  separator, found from left to right.  The result is never empty.
\<close>

fun split_nn :: "pystr \<Rightarrow> pystr list" where
  "split_nn [] = [[]]"
| "split_nn [c] = [[c]]"
| "split_nn (a # b # cs) =
     (if a = 10 \<and> b = 10 then [] # split_nn cs
      else (case split_nn (b # cs) of
              [] \<Rightarrow> [[a]]
            | p # ps \<Rightarrow> (a # p) # ps))"

text \<open>\<open>s[-k:]\<close> for \<open>0 < k < len(s)\<close>: the last \<open>k\<close> code points.\<close>

definition last_chars :: "int \<Rightarrow> pystr \<Rightarrow> pystr" where
  "last_chars k s = drop (length s - nat k) s"

section \<open>The chunker: \<open>DocumentProcessor._split_text_into_chunks\<close>\<close>

record chunk =
  chunk_text :: pystr
  chunk_index :: int
  character_count :: int

text \<open>The dictionary the source appends for a sealed buffer.\<close>

definition seal :: "pystr \<Rightarrow> int \<Rightarrow> chunk" where
  "seal current_chunk idx =
     \<lparr>chunk_text = strip current_chunk, chunk_index = idx,
      character_count = int (length (strip current_chunk))\<rparr>"

text \<open>
  The loop state is \<open>(chunks, current_chunk, chunk_index)\<close>; \<open>chunk_step\<close> is one
  iteration of \<open>for paragraph in paragraphs\<close>.
\<close>

type_synonym chunk_state = "chunk list \<times> pystr \<times> int"

definition chunk_step :: "int \<Rightarrow> int \<Rightarrow> chunk_state \<Rightarrow> pystr \<Rightarrow> chunk_state" where
  "chunk_step chunk_size overlap st raw =
     (case st of (chunks, current_chunk, idx) \<Rightarrow>
        let paragraph = strip raw in
        if paragraph = [] then st
        else if int (length current_chunk) + int (length paragraph) > chunk_size
                \<and> current_chunk \<noteq> []
        then (chunks @ [seal current_chunk idx],
              (if overlap > 0 \<and> int (length current_chunk) > overlap
               then last_chars overlap current_chunk @ nn @ paragraph
               else paragraph),
              idx + 1)
        else (chunks,
              (if current_chunk \<noteq> [] then current_chunk @ nn @ paragraph else paragraph),
              idx))"

definition chunk_loop :: "int \<Rightarrow> int \<Rightarrow> pystr list \<Rightarrow> chunk_state" where
  "chunk_loop chunk_size overlap paragraphs =
     foldl (chunk_step chunk_size overlap) ([], [], 0) paragraphs"

definition split_text_into_chunks :: "int \<Rightarrow> int \<Rightarrow> pystr \<Rightarrow> chunk list" where
  "split_text_into_chunks chunk_size overlap txt =
     (if txt = [] then []
      else
        (case chunk_loop chunk_size overlap (split_nn txt) of
           (chunks, current_chunk, idx) \<Rightarrow>
             let chunks1 = (if strip current_chunk \<noteq> []
                            then chunks @ [seal current_chunk idx] else chunks)
             in if chunks1 = [] \<and> strip txt \<noteq> []
                then chunks1 @ [\<lparr>chunk_text = strip txt, chunk_index = 0,
                                 character_count = int (length (strip txt))\<rparr>]
                else chunks1))"

section \<open>Literals and formatting\<close>

text \<open>An ASCII literal of the source, as code points.\<close>

definition ascii :: "string \<Rightarrow> pystr" where
  "ascii s = map of_char s"

text \<open>\<open>str(n)\<close> for an integer, as an f-string renders it: decimal, with a sign.\<close>

fun digits_nat :: "nat \<Rightarrow> pystr" where
  "digits_nat n = (if n < 10 then [48 + n] else digits_nat (n div 10) @ [48 + n mod 10])"

declare digits_nat.simps [simp del]

definition str_int :: "int \<Rightarrow> pystr" where
  "str_int i = (if i < 0 then 45 # digits_nat (nat (- i)) else digits_nat (nat i))"

text \<open>\<open>sep.join(parts)\<close>.\<close>

fun join :: "pystr \<Rightarrow> pystr list \<Rightarrow> pystr" where
  "join sep [] = []"
| "join sep [p] = p"
| "join sep (p # q # ps) = p @ sep @ join sep (q # ps)"

section \<open>Result dictionaries\<close>

text \<open>
  Every service method returns a dictionary with the key \<open>success\<close>, the key \<open>error\<close>
  when it failed, and further keys when it succeeded.  \<open>body\<close> holds those further
  keys; it is \<open>None\<close> when the dictionary has none of them.
\<close>

record 'a envelope =
  success :: bool
  error :: "pystr option"
  body :: "'a option"

definition failure :: "pystr \<Rightarrow> 'a envelope" where
  "failure msg = \<lparr>success = False, error = Some msg, body = None\<rparr>"

definition succeed :: "'a \<Rightarrow> 'a envelope" where
  "succeed b = \<lparr>success = True, error = None, body = Some b\<rparr>"

section \<open>The embedding orchestrator: \<open>AIService.generate_embeddings\<close>\<close>

text \<open>
  What \<open>response.json()\<close> gives for a reply: it raises (\<open>BadJson\<close>, with the text of
  the exception), or it is an object whose key \<open>embedding\<close> is present or not.
\<close>

datatype 'f json_body = BadJson pystr | JsonObject "'f list option"

text \<open>
  One \<open>await self.client.post(...)\<close>: the call raises (timeout, connection error), or
  returns a response with a status code and a body.
\<close>

datatype 'f reply = Raises pystr | Response int "'f json_body"

text \<open>
  The embedding provider is remote and may answer the same text differently on
  different calls, so it is a function of its own state: it takes the state, the model name
  and the prompt of the payload, and returns the reply and the next state.
\<close>

type_synonym ('s, 'f) provider = "'s \<Rightarrow> pystr \<Rightarrow> pystr \<Rightarrow> 'f reply \<times> 's"

record 'f embeddings_body =
  embeddings :: "'f list list"
  emb_count :: int
  emb_model :: pystr

text \<open>
  The loop \<open>for text in texts\<close>, with \<open>all_embeddings\<close> as accumulator.  \<open>Inl\<close> is
  the error text of the early \<open>return\<close> or of the exception the handler catches.
\<close>

fun embed_loop ::
  "('s, 'f) provider \<Rightarrow> pystr \<Rightarrow> 's \<Rightarrow> pystr list \<Rightarrow> 'f list list \<Rightarrow> (pystr + 'f list list) \<times> 's"
where
  "embed_loop post embedding_model s [] all_embeddings = (Inr all_embeddings, s)"
| "embed_loop post embedding_model s (t # ts) all_embeddings =
     (case post s embedding_model t of
        (Raises e, s') \<Rightarrow> (Inl e, s')
      | (Response status_code b, s') \<Rightarrow>
          if status_code = 200 then
            (case b of
               BadJson e \<Rightarrow> (Inl e, s')
             | JsonObject emb \<Rightarrow>
                 embed_loop post embedding_model s' ts
                   (all_embeddings @ [case emb of None \<Rightarrow> [] | Some v \<Rightarrow> v]))
          else (Inl (ascii ''Embedding API Error: '' @ str_int status_code), s'))"

definition generate_embeddings ::
  "('s, 'f) provider \<Rightarrow> pystr \<Rightarrow> 's \<Rightarrow> pystr list \<Rightarrow> 'f embeddings_body envelope \<times> 's"
where
  "generate_embeddings post embedding_model s texts =
     (case embed_loop post embedding_model s texts [] of
        (Inl e, s') \<Rightarrow> (failure e, s')
      | (Inr all_embeddings, s') \<Rightarrow>
          (succeed \<lparr>embeddings = all_embeddings,
                    emb_count = int (length all_embeddings),
                    emb_model = embedding_model\<rparr>, s'))"

section \<open>Payloads, points and hits\<close>

text \<open>
  What a dictionary holds under a key: nothing (the key is absent), \<open>None\<close> (JSON
  \<open>null\<close>), or a value.
\<close>

datatype 'a entry = Missing | Null | Value 'a

text \<open>
  \<open>d.get(key, default)\<close>, and \<open>d.get(key)\<close> with the default \<open>None\<close>.  The result may
  be Python's \<open>None\<close>, which is the \<open>None\<close> of the option type here: the default is
  returned only when the key is absent, and a stored \<open>null\<close> is returned as \<open>None\<close>.
\<close>

definition get_or :: "'a entry \<Rightarrow> 'a option \<Rightarrow> 'a option" where
  "get_or e default' = (case e of Missing \<Rightarrow> default' | Null \<Rightarrow> None | Value v \<Rightarrow> Some v)"

text \<open>How an f-string renders a string that may be \<open>None\<close>.\<close>

definition format_str :: "pystr option \<Rightarrow> pystr" where
  "format_str v = (case v of None \<Rightarrow> ascii ''None'' | Some t \<Rightarrow> t)"

text \<open>
  The metadata dictionary of a chunk, the payload of a stored point and the
  \<open>metadata\<close> of a retrieval hit are one dictionary with the keys below.  The values
  that are not \<open>null\<close> are typed as the ingestion pipeline writes them: strings, and an
  integer for \<open>chunk_index\<close>.
\<close>

record payload =
  p_text :: "pystr entry"
  p_document_id :: "pystr entry"
  p_filename :: "pystr entry"
  p_chunk_index :: "int entry"
  p_created_at :: "pystr entry"
  p_extra :: "(string \<times> pystr) list"

definition empty_payload :: payload where
  "empty_payload = \<lparr>p_text = Missing, p_document_id = Missing, p_filename = Missing,
     p_chunk_index = Missing, p_created_at = Missing, p_extra = []\<rparr>"

record 'f point =
  point_id :: pystr
  vector :: "'f list"
  point_payload :: payload

record 'f scored_point =
  sp_id :: pystr
  sp_score :: real
  sp_payload :: payload

text \<open>
  A retrieval hit as \<open>search_similar\<close> builds it.  The RAG engine reads every key with
  \<open>.get\<close> and a default, so every key may be absent; the text is copied from the
  payload and may be \<open>null\<close> as it is there.
\<close>

record hit =
  hit_id :: "pystr option"
  score :: "real option"
  hit_text :: "pystr entry"
  metadata :: "payload option"

definition get_metadata :: "hit \<Rightarrow> payload" where
  "get_metadata h = (case metadata h of None \<Rightarrow> empty_payload | Some m \<Rightarrow> m)"

definition get_score :: "hit \<Rightarrow> real" where
  "get_score h = (case score h of None \<Rightarrow> 0 | Some x \<Rightarrow> x)"

definition unknown :: pystr where
  "unknown = ascii ''Unknown''"

text \<open>\<open>metadata.get("filename", "Unknown")\<close>: a string, or \<open>None\<close> for a stored \<open>null\<close>.\<close>

definition get_filename :: "payload \<Rightarrow> pystr option" where
  "get_filename m = get_or (p_filename m) (Some unknown)"

text \<open>
  The exceptions that leave the methods of the RAG engine that have no handler of their
  own: \<open>None.strip()\<close> is an \<open>AttributeError\<close>, \<open>None + 1\<close> a \<open>TypeError\<close>.
\<close>

datatype exn = AttributeError | TypeError

section \<open>The context assembler: \<open>RAGEngine._build_context_from_chunks\<close>\<close>

text \<open>The two Thai literals of the provenance tag, \<open>[document: \<close> and \<open>, part \<close>.\<close>

definition tag_open :: pystr where
  "tag_open = [91, 3648, 3629, 3585, 3626, 3634, 3619, 58, 32]"

definition tag_part :: pystr where
  "tag_part = [44, 32, 3626, 3656, 3623, 3609, 3607, 3637, 3656, 32]"

definition separator :: pystr where
  "separator = [10, 10, 45, 45, 45, 10, 10]"

text \<open>The f-string appended to \<open>context_parts\<close>.\<close>

definition block :: "pystr \<Rightarrow> int \<Rightarrow> pystr \<Rightarrow> pystr" where
  "block fname idx chunk_text' =
     tag_open @ fname @ tag_part @ str_int (idx + 1) @ [93] @ [10] @ chunk_text'"

text \<open>
  The loop over \<open>enumerate(chunks)\<close>, from position \<open>i\<close> on.  A text stored as
  \<open>null\<close> raises at \<open>.strip()\<close>, and a \<open>chunk_index\<close> stored as \<open>null\<close> raises at
  \<open>chunk_index + 1\<close>; a file name stored as \<open>null\<close> is rendered as \<open>None\<close>.
\<close>

fun context_parts :: "nat \<Rightarrow> hit list \<Rightarrow> exn + pystr list" where
  "context_parts i [] = Inr []"
| "context_parts i (h # hs) =
     (case get_or (hit_text h) (Some []) of
        None \<Rightarrow> Inl AttributeError
      | Some t \<Rightarrow>
          if strip t \<noteq> [] then
            (case get_or (p_chunk_index (get_metadata h)) (Some (int i)) of
               None \<Rightarrow> Inl TypeError
             | Some idx \<Rightarrow>
                 (case context_parts (Suc i) hs of
                    Inl e \<Rightarrow> Inl e
                  | Inr parts \<Rightarrow>
                      Inr (block (format_str (get_filename (get_metadata h))) idx (strip t)
                             # parts)))
          else context_parts (Suc i) hs)"

definition build_context_from_chunks :: "hit list \<Rightarrow> exn + pystr" where
  "build_context_from_chunks chunks =
     (if chunks = [] then Inr []
      else (case context_parts 0 chunks of
              Inl e \<Rightarrow> Inl e
            | Inr parts \<Rightarrow> Inr (join separator parts)))"

section \<open>Source attribution: \<open>RAGEngine._extract_sources_info\<close>\<close>

text \<open>A source; its file name is \<open>None\<close> when the payload stores \<open>null\<close> for it.\<close>

record source =
  document_id :: pystr
  filename :: "pystr option"
  relevance_score :: real
  chunk_count :: int

text \<open>
  The inner loop \<open>for source in sources\<close>: the first entry of the document is updated,
  then \<open>break\<close>.
\<close>

fun update_source :: "pystr \<Rightarrow> real \<Rightarrow> source list \<Rightarrow> source list" where
  "update_source doc_id sc [] = []"
| "update_source doc_id sc (s # ss) =
     (if document_id s = doc_id
      then s\<lparr>chunk_count := chunk_count s + 1,
             relevance_score := (if sc > relevance_score s then sc else relevance_score s)\<rparr> # ss
      else s # update_source doc_id sc ss)"

text \<open>
  One iteration of \<open>for chunk in chunks\<close> on the state \<open>(sources, seen_docs)\<close>.  A
  missing, a \<open>null\<close> and an empty \<open>document_id\<close> are all falsy, and none of them is
  in \<open>seen_docs\<close>.
\<close>

definition sources_step :: "source list \<times> pystr set \<Rightarrow> hit \<Rightarrow> source list \<times> pystr set" where
  "sources_step st chunk =
     (case st of (sources, seen_docs) \<Rightarrow>
        (case get_or (p_document_id (get_metadata chunk)) None of
           None \<Rightarrow> st
         | Some doc_id \<Rightarrow>
             if doc_id \<noteq> [] \<and> doc_id \<notin> seen_docs then
               (sources @ [\<lparr>document_id = doc_id,
                             filename = get_filename (get_metadata chunk),
                             relevance_score = get_score chunk,
                             chunk_count = 1\<rparr>],
                insert doc_id seen_docs)
             else if doc_id \<in> seen_docs then
               (update_source doc_id (get_score chunk) sources, seen_docs)
             else st))"

definition extract_sources_info :: "hit list \<Rightarrow> source list" where
  "extract_sources_info chunks = fst (foldl sources_step ([], {}) chunks)"

section \<open>The prompt builder: \<open>RAGEngine._build_enhanced_system_prompt\<close>\<close>

text \<open>
  The fixed text of the template between \<open>{base_prompt}\<close> and \<open>{context}\<close>, and between
  \<open>{context}\<close> and \<open>{query}\<close>; the template ends with a newline.
\<close>

definition context_header :: pystr where
  "context_header = [10, 10, 3586, 3657, 3629, 3617, 3641, 3621, 3607, 3637, 3656, 3648,
     3585, 3637, 3656, 3618, 3623, 3586, 3657, 3629, 3591, 3592, 3634, 3585, 3648, 3629,
     3585, 3626, 3634, 3619, 58, 10]"

definition instruction :: pystr where
  "instruction = [10, 10, 3651, 3594, 3657, 3586, 3657, 3629, 3617, 3641, 3621, 3592, 3634,
     3585, 3648, 3629, 3585, 3626, 3634, 3619, 3586, 3657, 3634, 3591, 3605, 3657, 3609,
     3651, 3609, 3585, 3634, 3619, 3605, 3629, 3610, 3588, 3635, 3606, 3634, 3617, 32, 3627,
     3634, 3585, 3652, 3617, 3656, 3614, 3610, 3586, 3657, 3629, 3617, 3641, 3621, 3607,
     3637, 3656, 3648, 3585, 3637, 3656, 3618, 3623, 3586, 3657, 3629, 3591, 3651, 3609,
     3648, 3629, 3585, 3626, 3634, 3619, 32, 3651, 3627, 3657, 3649, 3592, 3657, 3591, 3651,
     3627, 3657, 3607, 3619, 3634, 3610, 3649, 3621, 3632, 3605, 3629, 3610, 3605, 3634,
     3617, 3588, 3623, 3634, 3617, 3619, 3641, 3657, 3607, 3633, 3656, 3623, 3652, 3611, 10,
     10, 3588, 3635, 3606, 3634, 3617, 58, 32]"

definition build_enhanced_system_prompt :: "pystr \<Rightarrow> pystr \<Rightarrow> pystr \<Rightarrow> pystr" where
  "build_enhanced_system_prompt base_prompt context' query =
     (if context' = [] then base_prompt
      else base_prompt @ context_header @ context' @ instruction @ query @ [10])"

section \<open>The vector store adapter: \<open>QdrantService\<close>\<close>

text \<open>
  A payload filter \<open>Filter(must=[FieldCondition(key, Match(value)), ...])\<close>: a list of
  equalities between a payload key and a value.
\<close>

type_synonym payload_filter = "(string \<times> pystr) list"

text \<open>
  What the adapter takes from the installed \<open>qdrant_client.models\<close> and from the
  interpreter.  \<open>match_raises v\<close> is the outcome of the call \<open>Match(value=v)\<close>: the text
  of the exception it raises, or \<open>None\<close> when it returns a match condition.  (In
  qdrant-client \<open>Match\<close> is a \<open>typing.Union\<close> of the match classes, and calling a
  \<open>typing.Union\<close> raises \<open>TypeError\<close>.)  \<open>sort_error_text keys\<close> is the text of the
  \<open>TypeError\<close> that \<open>list.sort\<close> raises on keys that cannot be compared.
\<close>

record python_env =
  match_raises :: "pystr \<Rightarrow> pystr option"
  sort_error_text :: "int option list \<Rightarrow> pystr"

text \<open>
  The loop that builds the conditions
  \<open>FieldCondition(key=field, match=Match(value=value))\<close>; it stops at the first call of
  \<open>Match\<close> that raises.
\<close>

fun build_conditions :: "python_env \<Rightarrow> (string \<times> pystr) list \<Rightarrow> pystr + payload_filter" where
  "build_conditions env [] = Inr []"
| "build_conditions env ((field, v) # rest) =
     (case match_raises env v of
        Some e \<Rightarrow> Inl e
      | None \<Rightarrow>
          (case build_conditions env rest of
             Inl e \<Rightarrow> Inl e
           | Inr conditions \<Rightarrow> Inr ((field, v) # conditions)))"

record collection_info =
  vectors_count :: "int option"
  points_count :: "int option"
  status :: pystr
  optimizer_status :: "pystr option"

text \<open>
  The backing client.  Each method takes the state of the backing store and returns the
  next state with either the text of the exception it raised (\<open>Inl\<close>) or its result.
  \<open>upsert\<close> and \<open>delete\<close> give the \<open>operation_id\<close> of the result when it has one.
\<close>

record ('st, 'f) qdrant_client =
  get_collections :: "'st \<Rightarrow> (pystr + pystr list) \<times> 'st"
  create_collection :: "pystr \<Rightarrow> int \<Rightarrow> 'st \<Rightarrow> (pystr + unit) \<times> 'st"
  upsert :: "pystr \<Rightarrow> 'f point list \<Rightarrow> 'st \<Rightarrow> (pystr + int option) \<times> 'st"
  search ::
    "pystr \<Rightarrow> 'f list \<Rightarrow> int \<Rightarrow> real \<Rightarrow> payload_filter option \<Rightarrow> 'st \<Rightarrow>
       (pystr + 'f scored_point list) \<times> 'st"
  scroll :: "pystr \<Rightarrow> payload_filter \<Rightarrow> int \<Rightarrow> 'st \<Rightarrow> (pystr + 'f point list) \<times> 'st"
  delete :: "pystr \<Rightarrow> payload_filter \<Rightarrow> 'st \<Rightarrow> (pystr + int option) \<times> 'st"
  get_collection :: "pystr \<Rightarrow> 'st \<Rightarrow> (pystr + collection_info) \<times> 'st"

text \<open>A message of a chat: \<open>{"role": ..., "content": ...}\<close>.\<close>

record message =
  role :: pystr
  content :: pystr

text \<open>
  The requests a service sends out, as they are recorded in the world.  A completion
  request is the \<open>model\<close> and the \<open>prompt\<close> of the payload posted to the chat
  endpoint; the other entries of that payload are constants.
\<close>

datatype 'f request =
    GetCollections
  | CreateCollection pystr int
  | Upsert pystr "'f point list"
  | Search pystr "'f list" int real "payload_filter option"
  | Scroll pystr payload_filter int
  | Delete pystr payload_filter
  | GetCollection pystr
  | ChatCompletion pystr pystr

text \<open>
  The world outside the services: the state of the backing store, the state of the
  completion provider, the requests sent so far (oldest first), the number of identifiers
  \<open>uuid.uuid4()\<close> has handed out, and the value of \<open>datetime.now().isoformat()\<close>.
\<close>

record ('st, 'ai, 'f) world =
  store :: 'st
  completion :: 'ai
  requests :: "'f request list"
  uuids_drawn :: nat
  now_iso :: pystr

text \<open>A client call: the request is recorded and the store moves on.\<close>

definition call ::
  "'f request \<Rightarrow> ('st \<Rightarrow> 'r \<times> 'st) \<Rightarrow> ('st, 'ai, 'f) world \<Rightarrow> 'r \<times> ('st, 'ai, 'f) world"
where
  "call req f w =
     (case f (store w) of
        (r, st') \<Rightarrow> (r, w\<lparr>store := st', requests := requests w @ [req]\<rparr>))"

record ('st, 'f) qdrant_service =
  client :: "('st, 'f) qdrant_client option"
  collection_name :: pystr
  embedding_dimension :: int

text \<open>
  \<open>_ensure_collection_exists\<close>: every exception is caught and logged, so nothing but
  the world comes back.
\<close>

definition ensure_collection_exists ::
  "('st, 'f) qdrant_client \<Rightarrow> pystr \<Rightarrow> int \<Rightarrow> ('st, 'ai, 'f) world \<Rightarrow> ('st, 'ai, 'f) world"
where
  "ensure_collection_exists c name dimension w =
     (case call GetCollections (get_collections c) w of
        (Inl e, w1) \<Rightarrow> w1
      | (Inr collection_names, w1) \<Rightarrow>
          if name \<notin> set collection_names
          then snd (call (CreateCollection name dimension) (create_collection c name dimension) w1)
          else w1)"

text \<open>
  \<open>QdrantService.__init__\<close>.  \<open>qdrant_available\<close> is the module flag
  \<open>QDRANT_AVAILABLE\<close>; \<open>connect\<close> is the outcome of the constructor
  \<open>QdrantClient(...)\<close>, which raises (\<open>Inl\<close>) or gives the client.
\<close>

definition init ::
  "bool \<Rightarrow> (pystr + ('st, 'f) qdrant_client) \<Rightarrow> pystr \<Rightarrow> int \<Rightarrow> ('st, 'ai, 'f) world \<Rightarrow>
     ('st, 'f) qdrant_service \<times> ('st, 'ai, 'f) world"
where
  "init qdrant_available connect name dimension w =
     (if qdrant_available then
        (case connect of
           Inl e \<Rightarrow> (\<lparr>client = None, collection_name = name, embedding_dimension = dimension\<rparr>, w)
         | Inr c \<Rightarrow>
             (\<lparr>client = Some c, collection_name = name, embedding_dimension = dimension\<rparr>,
              ensure_collection_exists c name dimension w))
      else (\<lparr>client = None, collection_name = name, embedding_dimension = dimension\<rparr>, w))"

definition not_available :: pystr where
  "not_available = ascii ''Qdrant client not available''"

text \<open>
  \<open>uuid.uuid4()\<close> is a source of fresh identifiers: \<open>uuid4 n\<close> is the \<open>n\<close>-th one it
  hands out.
\<close>

text \<open>
  The payload \<open>{"text": text, "document_id": meta.get("document_id"), "filename":
  meta.get("filename"), "chunk_index": meta.get("chunk_index", i), "created_at": now,
  **meta}\<close>: a key of \<open>meta\<close> keeps its value, also when that is \<open>null\<close>; an absent
  \<open>document_id\<close> or \<open>filename\<close> is stored as \<open>null\<close>.
\<close>

definition make_payload :: "pystr \<Rightarrow> nat \<Rightarrow> pystr \<Rightarrow> payload \<Rightarrow> payload" where
  "make_payload now i txt meta =
     \<lparr>p_text = (case p_text meta of Missing \<Rightarrow> Value txt | Null \<Rightarrow> Null | Value t \<Rightarrow> Value t),
      p_document_id =
        (case p_document_id meta of Missing \<Rightarrow> Null | Null \<Rightarrow> Null | Value d \<Rightarrow> Value d),
      p_filename =
        (case p_filename meta of Missing \<Rightarrow> Null | Null \<Rightarrow> Null | Value f \<Rightarrow> Value f),
      p_chunk_index =
        (case p_chunk_index meta of Missing \<Rightarrow> Value (int i) | Null \<Rightarrow> Null | Value c \<Rightarrow> Value c),
      p_created_at =
        (case p_created_at meta of Missing \<Rightarrow> Value now | Null \<Rightarrow> Null | Value t \<Rightarrow> Value t),
      p_extra = p_extra meta\<rparr>"

text \<open>
  The loop over \<open>enumerate(zip(texts, embeddings, metadata))\<close>: the points, one fresh
  identifier each, starting with the \<open>n\<close>-th identifier at position \<open>i\<close>.
\<close>

fun build_points ::
  "(nat \<Rightarrow> pystr) \<Rightarrow> pystr \<Rightarrow> nat \<Rightarrow> nat \<Rightarrow> pystr list \<Rightarrow> 'f list list \<Rightarrow> payload list \<Rightarrow> 'f point list"
where
  "build_points uuid4 now n i (t # ts) (e # es) (m # ms) =
     \<lparr>point_id = uuid4 n, vector = e, point_payload = make_payload now i t m\<rparr>
       # build_points uuid4 now (Suc n) (Suc i) ts es ms"
| "build_points uuid4 now n i _ _ _ = []"

record add_body =
  point_ids :: "pystr list"
  add_count :: int
  add_operation_id :: "int option"

definition add_documents ::
  "('st, 'f) qdrant_service \<Rightarrow> (nat \<Rightarrow> pystr) \<Rightarrow> pystr list \<Rightarrow> 'f list list \<Rightarrow> payload list \<Rightarrow>
     ('st, 'ai, 'f) world \<Rightarrow> add_body envelope \<times> ('st, 'ai, 'f) world"
where
  "add_documents svc uuid4 texts embeddings' metadata' w =
     (case client svc of
        None \<Rightarrow> (failure not_available, w)
      | Some c \<Rightarrow>
          if length texts \<noteq> length embeddings' \<or> length texts \<noteq> length metadata'
          then (failure (ascii ''Mismatched input lengths''), w)
          else
            let points = build_points uuid4 (now_iso w) (uuids_drawn w) 0 texts embeddings' metadata';
                w1 = w\<lparr>uuids_drawn := uuids_drawn w + length points\<rparr>
            in (case call (Upsert (collection_name svc) points)
                       (upsert c (collection_name svc) points) w1 of
                  (Inl e, w2) \<Rightarrow> (failure e, w2)
                | (Inr operation_id, w2) \<Rightarrow>
                    (succeed \<lparr>point_ids = map point_id points,
                              add_count = int (length points),
                              add_operation_id = operation_id\<rparr>, w2)))"

text \<open>
  A formatted result: the text is \<open>hit.payload.get("text", "")\<close>, the metadata is the
  payload without the key \<open>text\<close>.
\<close>

definition format_hit :: "'f scored_point \<Rightarrow> hit" where
  "format_hit h =
     \<lparr>hit_id = Some (sp_id h), score = Some (sp_score h),
      hit_text = (case p_text (sp_payload h) of Missing \<Rightarrow> Value [] | Null \<Rightarrow> Null | Value t \<Rightarrow> Value t),
      metadata = Some ((sp_payload h)\<lparr>p_text := Missing\<rparr>)\<rparr>"

record search_body =
  results :: "hit list"
  search_count :: int

definition search_similar ::
  "python_env \<Rightarrow> ('st, 'f) qdrant_service \<Rightarrow> 'f list \<Rightarrow> int \<Rightarrow> real \<Rightarrow> payload_filter option \<Rightarrow>
     ('st, 'ai, 'f) world \<Rightarrow> search_body envelope \<times> ('st, 'ai, 'f) world"
where
  "search_similar env svc query_embedding limit score_threshold filter_conditions w =
     (case client svc of
        None \<Rightarrow> (failure not_available, w)
      | Some c \<Rightarrow>
          (case (case filter_conditions of
                   None \<Rightarrow> Inr None
                 | Some conds \<Rightarrow>
                     if conds = [] then Inr None
                     else (case build_conditions env conds of
                             Inl e \<Rightarrow> Inl e
                           | Inr conditions \<Rightarrow> Inr (Some conditions))) of
             Inl e \<Rightarrow> (failure e, w)
           | Inr query_filter \<Rightarrow>
               (case call (Search (collection_name svc) query_embedding limit score_threshold query_filter)
                       (search c (collection_name svc) query_embedding limit score_threshold query_filter) w of
                  (Inl e, w1) \<Rightarrow> (failure e, w1)
                | (Inr search_results, w1) \<Rightarrow>
                    (succeed \<lparr>results = map format_hit search_results,
                              search_count = int (length search_results)\<rparr>, w1))))"

text \<open>
  A chunk of a stored document, as \<open>get_document_chunks\<close> returns it: the text is
  \<open>point.payload.get("text", "")\<close> and the index \<open>point.payload.get("chunk_index", 0)\<close>,
  each \<open>None\<close> when the payload stores \<open>null\<close>.
\<close>

record doc_chunk =
  dc_id :: pystr
  dc_text :: "pystr option"
  dc_chunk_index :: "int option"
  dc_metadata :: payload

definition format_chunk :: "'f point \<Rightarrow> doc_chunk" where
  "format_chunk p =
     \<lparr>dc_id = point_id p,
      dc_text = get_or (p_text (point_payload p)) (Some []),
      dc_chunk_index = get_or (p_chunk_index (point_payload p)) (Some 0),
      dc_metadata = point_payload p\<rparr>"

record chunks_body =
  doc_chunks :: "doc_chunk list"
  chunks_count :: int

text \<open>
  \<open>chunks.sort(key=lambda x: x.get("chunk_index", 0))\<close>.  With two or more chunks every
  key is compared, and a comparison with \<open>None\<close> raises \<open>TypeError\<close>; otherwise the
  sort is the stable sort by the index, as \<open>sort_key\<close> is.
\<close>

definition sort_chunks :: "python_env \<Rightarrow> doc_chunk list \<Rightarrow> pystr + doc_chunk list" where
  "sort_chunks env cs =
     (if 2 \<le> length cs \<and> None \<in> set (map dc_chunk_index cs)
      then Inl (sort_error_text env (map dc_chunk_index cs))
      else Inr (sort_key (\<lambda>c. case dc_chunk_index c of None \<Rightarrow> 0 | Some k \<Rightarrow> k) cs))"

definition get_document_chunks ::
  "python_env \<Rightarrow> ('st, 'f) qdrant_service \<Rightarrow> pystr \<Rightarrow> ('st, 'ai, 'f) world \<Rightarrow>
     chunks_body envelope \<times> ('st, 'ai, 'f) world"
where
  "get_document_chunks env svc doc_id w =
     (case client svc of
        None \<Rightarrow> (failure not_available, w)
      | Some c \<Rightarrow>
          (case build_conditions env [(''document_id'', doc_id)] of
             Inl e \<Rightarrow> (failure e, w)
           | Inr filter_condition \<Rightarrow>
               (case call (Scroll (collection_name svc) filter_condition 1000)
                       (scroll c (collection_name svc) filter_condition 1000) w of
                  (Inl e, w1) \<Rightarrow> (failure e, w1)
                | (Inr pts, w1) \<Rightarrow>
                    (case sort_chunks env (map format_chunk pts) of
                       Inl e \<Rightarrow> (failure e, w1)
                     | Inr cs \<Rightarrow>
                         (succeed \<lparr>doc_chunks = cs, chunks_count = int (length cs)\<rparr>, w1)))))"

definition delete_document ::
  "python_env \<Rightarrow> ('st, 'f) qdrant_service \<Rightarrow> pystr \<Rightarrow> ('st, 'ai, 'f) world \<Rightarrow>
     int option envelope \<times> ('st, 'ai, 'f) world"
where
  "delete_document env svc doc_id w =
     (case client svc of
        None \<Rightarrow> (failure not_available, w)
      | Some c \<Rightarrow>
          (case build_conditions env [(''document_id'', doc_id)] of
             Inl e \<Rightarrow> (failure e, w)
           | Inr filter_condition \<Rightarrow>
               (case call (Delete (collection_name svc) filter_condition)
                       (delete c (collection_name svc) filter_condition) w of
                  (Inl e, w1) \<Rightarrow> (failure e, w1)
                | (Inr operation_id, w1) \<Rightarrow> (succeed operation_id, w1))))"

definition get_collection_info ::
  "('st, 'f) qdrant_service \<Rightarrow> ('st, 'ai, 'f) world \<Rightarrow>
     collection_info envelope \<times> ('st, 'ai, 'f) world"
where
  "get_collection_info svc w =
     (case client svc of
        None \<Rightarrow> (failure not_available, w)
      | Some c \<Rightarrow>
          (case call (GetCollection (collection_name svc))
                  (get_collection c (collection_name svc)) w of
             (Inl e, w1) \<Rightarrow> (failure e, w1)
           | (Inr info, w1) \<Rightarrow> (succeed info, w1)))"

section \<open>Document summary: \<open>RAGEngine.get_document_summary\<close>\<close>

text \<open>
  One \<open>await self.client.post(...)\<close> to the chat endpoint: the call raises, or
  returns a response with a status code, its text, and what \<open>response.json()\<close> gives
  for it: it raises, or it is an object whose key \<open>response\<close> is present or not.  The
  completion provider is remote: the reply is a function of the provider's state, of the
  model and of the prompt.
\<close>

datatype chat_body = ChatBadJson pystr | ChatObject "pystr option"

datatype chat_reply = ChatRaises pystr | ChatHttp int pystr chat_body

type_synonym 'ai chat_provider = "'ai \<Rightarrow> pystr \<Rightarrow> pystr \<Rightarrow> chat_reply \<times> 'ai"

record ai_settings =
  chat_model :: pystr
  default_system_prompt :: pystr

text \<open>\<open>AIService._format_messages_for_ollama\<close>.\<close>

fun format_messages_for_ollama :: "message list \<Rightarrow> pystr" where
  "format_messages_for_ollama [] = ascii ''Assistant: ''"
| "format_messages_for_ollama (m # ms) =
     (if role m = ascii ''system'' then ascii ''System: '' @ content m @ [10, 10]
      else if role m = ascii ''user'' then ascii ''Human: '' @ content m @ [10, 10]
      else if role m = ascii ''assistant'' then ascii ''Assistant: '' @ content m @ [10, 10]
      else [])
     @ format_messages_for_ollama ms"

text \<open>
  The two dictionaries \<open>AIService.generate_chat_response\<close> returns:
  \<open>{"success": True, "response": ..., "model": ..., "timestamp": ...}\<close> and
  \<open>{"success": False, "error": ..., "details": ...}\<close>.
\<close>

datatype chat_result = ChatResponse pystr pystr pystr | ChatError pystr pystr

definition generate_chat_response ::
  "'ai chat_provider \<Rightarrow> ai_settings \<Rightarrow> message list \<Rightarrow> pystr option \<Rightarrow> pystr option \<Rightarrow>
     ('st, 'ai, 'f) world \<Rightarrow> chat_result \<times> ('st, 'ai, 'f) world"
where
  "generate_chat_response post settings messages system_prompt model w =
     (let system_prompt' = (case system_prompt of
                              None \<Rightarrow> default_system_prompt settings | Some p \<Rightarrow> p);
          model' = (case model of None \<Rightarrow> chat_model settings | Some m \<Rightarrow> m);
          formatted_messages = \<lparr>role = ascii ''system'', content = system_prompt'\<rparr> # messages;
          prompt = format_messages_for_ollama formatted_messages
      in (case post (completion w) model' prompt of
            (r, ai') \<Rightarrow>
              let w' = w\<lparr>completion := ai',
                         requests := requests w @ [ChatCompletion model' prompt]\<rparr>
              in (case r of
                    ChatRaises e \<Rightarrow> (ChatError (ascii ''Internal error'') e, w')
                  | ChatHttp status_code response_text b \<Rightarrow>
                      if status_code = 200 then
                        (case b of
                           ChatBadJson e \<Rightarrow> (ChatError (ascii ''Internal error'') e, w')
                         | ChatObject resp \<Rightarrow>
                             (ChatResponse (case resp of None \<Rightarrow> [] | Some t \<Rightarrow> t)
                                model' (now_iso w), w'))
                      else (ChatError (ascii ''API Error: '' @ str_int status_code)
                              response_text, w'))))"

text \<open>The two Thai literals: the instruction before the document text, and the system prompt.\<close>

definition summary_instruction :: pystr where
  "summary_instruction = [3585, 3619, 3640, 3603, 3634, 3626, 3619, 3640, 3611, 3648, 3609,
     3639, 3657, 3629, 3627, 3634, 3586, 3629, 3591, 3648, 3629, 3585, 3626, 3634, 3619,
     3609, 3637, 3657, 3651, 3627, 3657, 3629, 3656, 3634, 3609, 3591, 3656, 3634, 3618,
     3649, 3621, 3632, 3648, 3586, 3657, 3634, 3651, 3592, 3591, 3656, 3634, 3618, 58, 10, 10]"

definition summary_system_prompt :: pystr where
  "summary_system_prompt = [3588, 3640, 3603, 3648, 3611, 3655, 3609, 3612, 3641, 3657, 3648,
     3594, 3637, 3656, 3618, 3623, 3594, 3634, 3597, 3651, 3609, 3585, 3634, 3619, 3626,
     3619, 3640, 3611, 3648, 3629, 3585, 3626, 3634, 3619, 32, 3626, 3619, 3640, 3611, 3651,
     3627, 3657, 3585, 3619, 3632, 3594, 3633, 3610, 3649, 3605, 3656, 3588, 3619, 3629,
     3610, 3588, 3621, 3640, 3617, 3611, 3619, 3632, 3648, 3604, 3655, 3609, 3626, 3635,
     3588, 3633, 3597]"

record summary_body =
  sum_document_id :: pystr
  summary :: pystr
  sum_chunk_count :: int
  total_characters :: int
  sum_filename :: "pystr option"
  processed_at :: "pystr option"

text \<open>
  The items of \<open>" ".join([...])\<close> from position \<open>i\<close> on: \<open>str.join\<close> raises
  \<open>TypeError\<close> at the first item that is \<open>None\<close>, with the text
  \<open>sequence item i: expected str instance, NoneType found\<close>.
\<close>

fun join_items :: "nat \<Rightarrow> pystr option list \<Rightarrow> pystr + pystr list" where
  "join_items i [] = Inr []"
| "join_items i (None # xs) =
     Inl (ascii ''sequence item '' @ str_int (int i)
          @ ascii '': expected str instance, NoneType found'')"
| "join_items i (Some t # xs) =
     (case join_items (Suc i) xs of Inl e \<Rightarrow> Inl e | Inr ts \<Rightarrow> Inr (t # ts))"

definition summary_prompt :: "pystr \<Rightarrow> pystr" where
  "summary_prompt full_text = summary_instruction @ take 4000 full_text"

definition get_document_summary ::
  "python_env \<Rightarrow> ('st, 'f) qdrant_service \<Rightarrow> 'ai chat_provider \<Rightarrow> ai_settings \<Rightarrow> pystr \<Rightarrow>
     ('st, 'ai, 'f) world \<Rightarrow> summary_body envelope \<times> ('st, 'ai, 'f) world"
where
  "get_document_summary env svc post settings doc_id w =
     (case get_document_chunks env svc doc_id w of
        (chunks_result, w1) \<Rightarrow>
          if \<not> success chunks_result then
            (failure (ascii ''Failed to get document chunks: ''
                       @ (case error chunks_result of None \<Rightarrow> [] | Some e \<Rightarrow> e)), w1)
          else
            (case body chunks_result of
               None \<Rightarrow> (failure [39, 99, 104, 117, 110, 107, 115, 39], w1)
             | Some b \<Rightarrow>
                 if doc_chunks b = [] then (failure (ascii ''No chunks found for document''), w1)
                 else
                   (case join_items 0 (map dc_text (doc_chunks b)) of
                      Inl e \<Rightarrow> (failure e, w1)
                    | Inr texts \<Rightarrow>
                        let full_text = join [32] texts;
                            messages = [\<lparr>role = ascii ''user'', content = summary_prompt full_text\<rparr>]
                        in (case generate_chat_response post settings messages
                                   (Some summary_system_prompt) None w1 of
                              (ChatError e details, w2) \<Rightarrow>
                                (failure (ascii ''Failed to generate summary: '' @ e), w2)
                            | (ChatResponse r used_model stamp, w2) \<Rightarrow>
                                (succeed \<lparr>sum_document_id = doc_id,
                                          summary = r,
                                          sum_chunk_count = int (length (doc_chunks b)),
                                          total_characters = int (length full_text),
                                          sum_filename = get_filename (dc_metadata (hd (doc_chunks b))),
                                          processed_at =
                                            get_or (p_created_at (dc_metadata (hd (doc_chunks b)))) None\<rparr>,
                                 w2)))))"

section \<open>Predicates and examples used in the statements\<close>

text \<open>Loop invariant of the chunker: the indices emitted so far, and the counter.\<close>

definition indexed :: "chunk_state \<Rightarrow> bool" where
  "indexed st \<longleftrightarrow>
     (case st of (chunks, current_chunk, idx) \<Rightarrow>
        map chunk_index chunks = map int [0..<length chunks] \<and> idx = int (length chunks))"

text \<open>The text has a paragraph separator: two adjacent newlines.\<close>

fun has_blank_line :: "pystr \<Rightarrow> bool" where
  "has_blank_line (a # b # cs) = ((a = 10 \<and> b = 10) \<or> has_blank_line (b # cs))"
| "has_blank_line _ = False"

text \<open>Loop invariant: the sealed chunks and the buffer are no longer than \<open>B\<close>.\<close>

definition bounded :: "int \<Rightarrow> chunk_state \<Rightarrow> bool" where
  "bounded B st \<longleftrightarrow>
     (case st of (chunks, current_chunk, idx) \<Rightarrow>
        list_all (\<lambda>c. character_count c \<le> B) chunks \<and> int (length current_chunk) \<le> B)"

text \<open>Loop invariant: the buffer is not empty and does not end in whitespace.\<close>

definition open_buffer :: "chunk_state \<Rightarrow> bool" where
  "open_buffer st \<longleftrightarrow>
     (case st of (chunks, current_chunk, idx) \<Rightarrow>
        current_chunk \<noteq> [] \<and> \<not> isspace (last current_chunk))"

text \<open>
  A document of three paragraphs of 90, 90 and 1 characters, none longer than a
  \<open>chunk_size\<close> of 100.
\<close>

definition sample_doc :: pystr where
  "sample_doc = replicate 90 97 @ 10 # 10 # replicate 90 98 @ 10 # 10 # [99]"

text \<open>
  What the provider answers when it is called once per text, in order, from state \<open>s\<close>.
\<close>

fun replies :: "('s, 'f) provider \<Rightarrow> pystr \<Rightarrow> 's \<Rightarrow> pystr list \<Rightarrow> 'f reply list" where
  "replies post embedding_model s [] = []"
| "replies post embedding_model s (t # ts) =
     (case post s embedding_model t of (r, s') \<Rightarrow> r # replies post embedding_model s' ts)"

text \<open>The embedding the source takes from a reply, if it takes one.\<close>

definition vector_of :: "'f reply \<Rightarrow> 'f list option" where
  "vector_of r =
     (case r of
        Raises e \<Rightarrow> None
      | Response status_code b \<Rightarrow>
          if status_code = 200 then
            (case b of
               BadJson e \<Rightarrow> None
             | JsonObject emb \<Rightarrow> Some (case emb of None \<Rightarrow> [] | Some v \<Rightarrow> v))
          else None)"

definition answered :: "'f reply \<Rightarrow> bool" where
  "answered r \<longleftrightarrow> vector_of r \<noteq> None"

definition embedding_of :: "'f reply \<Rightarrow> 'f list" where
  "embedding_of r = (case vector_of r of None \<Rightarrow> [] | Some v \<Rightarrow> v)"

text \<open>A provider whose second call fails, and that echoes the text otherwise.\<close>

definition flaky_provider :: "(nat, nat) provider" where
  "flaky_provider s embedding_model t =
     (if s = 1 then (Response 500 (BadJson []), Suc s)
      else (Response 200 (JsonObject (Some t)), Suc s))"

text \<open>The document of a hit, the hits of a document, and the source of a document.\<close>

definition doc_of :: "hit \<Rightarrow> pystr option" where
  "doc_of h = get_or (p_document_id (get_metadata h)) None"

definition carries_document_id :: "hit \<Rightarrow> bool" where
  "carries_document_id h \<longleftrightarrow> (case doc_of h of None \<Rightarrow> False | Some d \<Rightarrow> d \<noteq> [])"

definition document_ids :: "hit list \<Rightarrow> pystr list" where
  "document_ids hits = List.map_filter doc_of hits"

definition first_seen :: "'a list \<Rightarrow> 'a list" where
  "first_seen xs = rev (remdups (rev xs))"

definition hits_of :: "pystr \<Rightarrow> hit list \<Rightarrow> hit list" where
  "hits_of d hits = filter (\<lambda>h. doc_of h = Some d) hits"

definition attribution :: "hit list \<Rightarrow> pystr \<Rightarrow> source" where
  "attribution hits d =
     \<lparr>document_id = d,
      filename = get_filename (get_metadata (hd (hits_of d hits))),
      relevance_score = Max (set (map get_score (hits_of d hits))),
      chunk_count = int (length (hits_of d hits))\<rparr>"

definition scored_hit :: "pystr \<Rightarrow> pystr \<Rightarrow> real \<Rightarrow> hit" where
  "scored_hit doc fname sc =
     \<lparr>hit_id = None, score = Some sc, hit_text = Value [120],
      metadata = Some (empty_payload\<lparr>p_document_id := Value doc, p_filename := Value fname\<rparr>)\<rparr>"






text \<open>An in-memory backing store for the examples: the state is the list of points.\<close>

definition matches :: "payload_filter \<Rightarrow> 'f point \<Rightarrow> bool" where
  "matches flt p \<longleftrightarrow>
     list_all (\<lambda>kv. fst kv = ''document_id'' \<and> p_document_id (point_payload p) = Value (snd kv)) flt"

definition memory_client :: "(nat point list, nat) qdrant_client" where
  "memory_client =
     \<lparr>get_collections = (\<lambda>st. (Inr [], st)),
      create_collection = (\<lambda>name d st. (Inr (), st)),
      upsert = (\<lambda>name pts st. (Inr (Some 0), st @ pts)),
      search = (\<lambda>name v limit thr flt st. (Inr [], st)),
      scroll = (\<lambda>name flt limit st. (Inr (take (nat limit) (filter (matches flt) st)), st)),
      delete = (\<lambda>name flt st. (Inr (Some 0), filter (\<lambda>p. \<not> matches flt p) st)),
      get_collection = (\<lambda>name st.
        (Inr \<lparr>vectors_count = Some (int (length st)), points_count = Some (int (length st)),
              status = ascii ''green'', optimizer_status = None\<rparr>, st))\<rparr>"

definition memory_service :: "(nat point list, nat) qdrant_service" where
  "memory_service = \<lparr>client = Some memory_client, collection_name = [99], embedding_dimension = 3\<rparr>"

definition stored_point :: "pystr \<Rightarrow> pystr \<Rightarrow> int \<Rightarrow> pystr \<Rightarrow> nat point" where
  "stored_point pid doc idx txt =
     \<lparr>point_id = pid, vector = [0, 0, 0],
      point_payload = empty_payload\<lparr>p_text := Value txt, p_document_id := Value doc,
                                     p_chunk_index := Value idx\<rparr>\<rparr>"

definition long_world :: "(nat point list, unit, nat) world" where
  "long_world =
     \<lparr>store = [stored_point [49] [100] 1 (replicate 3000 97),
               stored_point [50] [101] 0 [122],
               stored_point [51] [100] 0 (replicate 3000 98)],
      completion = (), requests = [], uuids_drawn = 3, now_iso = []\<rparr>"

text \<open>
  The environment of an installed qdrant-client: \<open>Match(value=...)\<close> raises the
  \<open>TypeError\<close> of a call of \<open>typing.Union\<close>; the text of a failed comparison is
  \<open>'<' not supported between instances of 'NoneType' and 'int'\<close>.
\<close>

definition union_env :: python_env where
  "union_env =
     \<lparr>match_raises = (\<lambda>v. Some (ascii ''Cannot instantiate typing.Union'')),
      sort_error_text = (\<lambda>keys. [39, 60, 39, 32, 110, 111, 116, 32, 115, 117, 112, 112, 111,
        114, 116, 101, 100, 32, 98, 101, 116, 119, 101, 101, 110, 32, 105, 110, 115, 116, 97,
        110, 99, 101, 115, 32, 111, 102, 32, 39, 78, 111, 110, 101, 84, 121, 112, 101, 39, 32,
        97, 110, 100, 32, 39, 105, 110, 116, 39])\<rparr>"



definition unreachable_service :: "(nat point list, nat) qdrant_service" where
  "unreachable_service =
     fst (init True (Inl (ascii ''connection refused'')) [99] 3 long_world)"

section \<open>Trimming and splitting\<close>

lemma strip_Nil: "strip [] = []"
  by (simp add: strip_def)

lemma strip_Nil_iff: "strip s = [] \<longleftrightarrow> (\<forall>c\<in>set s. isspace c)"
proof
  define u where "u = dropWhile isspace s"
  assume "strip s = []"
  then have "dropWhile isspace (rev u) = []"
    by (simp add: strip_def u_def)
  then have a: "\<forall>c\<in>set u. isspace c"
    using dropWhile_eq_Nil_conv [of isspace "rev u"] by simp
  have "u = []"
  proof (rule ccontr)
    assume n: "u \<noteq> []"
    then have "\<not> isspace (hd u)" unfolding u_def by (rule hd_dropWhile)
    moreover have "hd u \<in> set u" using n by (rule hd_in_set)
    ultimately show False using a by blast
  qed
  then show "\<forall>c\<in>set s. isspace c"
    using dropWhile_eq_Nil_conv [of isspace s] by (simp add: u_def)
next
  assume "\<forall>c\<in>set s. isspace c"
  then have "dropWhile isspace s = []"
    using dropWhile_eq_Nil_conv [of isspace s] by blast
  then show "strip s = []" by (simp add: strip_def del: dropWhile_eq_Nil_conv)
qed

lemma last_strip: "strip s \<noteq> [] \<Longrightarrow> \<not> isspace (last (strip s))"
  unfolding strip_def by (simp add: last_rev hd_dropWhile)

lemma strip_prefix:
  "dropWhile isspace s = strip s @ rev (takeWhile isspace (rev (dropWhile isspace s)))"
proof -
  define u where "u = dropWhile isspace s"
  have "rev u = takeWhile isspace (rev u) @ dropWhile isspace (rev u)"
    by simp
  then have "rev (rev u) = rev (takeWhile isspace (rev u) @ dropWhile isspace (rev u))"
    by (rule arg_cong)
  then have "u = rev (dropWhile isspace (rev u)) @ rev (takeWhile isspace (rev u))"
    by (simp only: rev_rev_ident rev_append)
  then show ?thesis unfolding strip_def u_def .
qed

lemma hd_strip: "strip s \<noteq> [] \<Longrightarrow> \<not> isspace (hd (strip s))"
proof -
  assume n: "strip s \<noteq> []"
  have e: "dropWhile isspace s = strip s @ rev (takeWhile isspace (rev (dropWhile isspace s)))"
    by (rule strip_prefix)
  have "hd (strip s @ rev (takeWhile isspace (rev (dropWhile isspace s)))) = hd (strip s)"
    using n by (rule hd_append2)
  then have h: "hd (dropWhile isspace s) = hd (strip s)" using e by simp
  have "dropWhile isspace s \<noteq> []"
  proof
    assume "dropWhile isspace s = []"
    then have "strip s = []" by (simp add: strip_def del: dropWhile_eq_Nil_conv)
    with n show False by simp
  qed
  then have "\<not> isspace (hd (dropWhile isspace s))" by (rule hd_dropWhile)
  with h show ?thesis by simp
qed

lemma strip_id: "s \<noteq> [] \<Longrightarrow> \<not> isspace (hd s) \<Longrightarrow> \<not> isspace (last s) \<Longrightarrow> strip s = s"
proof -
  assume s: "s \<noteq> []" and h: "\<not> isspace (hd s)" and l: "\<not> isspace (last s)"
  from s h have a: "dropWhile isspace s = s" by (cases s) simp_all
  from s l have "dropWhile isspace (rev s) = rev s"
    by (cases "rev s") (simp_all add: last_rev)
  with a show ?thesis by (simp add: strip_def)
qed

lemma strip_strip: "strip (strip s) = strip s"
proof (cases "strip s = []")
  case True
  then show ?thesis by (simp add: strip_Nil)
next
  case False
  then show ?thesis by (intro strip_id hd_strip last_strip)
qed

lemma length_strip_le: "length (strip s) \<le> length s"
proof -
  have "length (strip s) \<le> length (dropWhile isspace s)"
    unfolding strip_def using length_dropWhile_le [of isspace "rev (dropWhile isspace s)"] by simp
  also have "\<dots> \<le> length s" by (rule length_dropWhile_le)
  finally show ?thesis .
qed

lemma split_nn_single: "\<not> has_blank_line t \<Longrightarrow> split_nn t = [t]"
  by (induction t rule: split_nn.induct) auto

lemma length_last_chars:
  "0 < k \<Longrightarrow> k < int (length s) \<Longrightarrow> int (length (last_chars k s)) = k"
  by (simp add: last_chars_def)

lemma seal_count_le: "character_count (seal s i) \<le> int (length s)"
  using length_strip_le [of s] by (simp add: seal_def)

lemma bounded_step:
  assumes B1: "chunk_size + 2 \<le> B" and B2: "max 0 overlap + int (length (strip raw)) + 2 \<le> B"
    and inv: "bounded B st"
  shows "bounded B (chunk_step chunk_size overlap st raw)"
proof (cases st)
  case (fields chunks cur idx)
  have c: "list_all (\<lambda>c. character_count c \<le> B) chunks" and l: "int (length cur) \<le> B"
    using inv fields by (simp_all add: bounded_def)
  have s: "character_count (seal cur idx) \<le> B"
    using seal_count_le [of cur idx] l by linarith
  show ?thesis
  proof (cases "strip raw = []")
    case True
    then show ?thesis using inv fields by (simp add: chunk_step_def)
  next
    case False
    show ?thesis
    proof (cases "int (length cur) + int (length (strip raw)) > chunk_size \<and> cur \<noteq> []")
      case True
      show ?thesis
      proof (cases "overlap > 0 \<and> int (length cur) > overlap")
        case True
        then have "int (length (last_chars overlap cur)) = overlap"
          by (simp add: length_last_chars)
        then have "int (length (last_chars overlap cur @ nn @ strip raw)) \<le> B"
          using B2 by (simp add: nn_def)
        then show ?thesis
          using \<open>strip raw \<noteq> []\<close> \<open>int (length cur) + int (length (strip raw)) > chunk_size \<and> cur \<noteq> []\<close> True c s
          by (simp add: fields chunk_step_def bounded_def Let_def)
      next
        case False
        have "int (length (strip raw)) \<le> B" using B2 by linarith
        then show ?thesis
          using \<open>strip raw \<noteq> []\<close> \<open>int (length cur) + int (length (strip raw)) > chunk_size \<and> cur \<noteq> []\<close> False c s
          by (auto simp add: fields chunk_step_def bounded_def Let_def)
      qed
    next
      case False
      have a: "int (length (strip raw)) \<le> B" using B2 by linarith
      have b: "cur \<noteq> [] \<Longrightarrow> int (length (cur @ nn @ strip raw)) \<le> B"
        using False B1 by (simp add: nn_def)
      show ?thesis
      proof (cases "cur = []")
        case True
        then show ?thesis using \<open>strip raw \<noteq> []\<close> a c
          by (simp add: fields chunk_step_def bounded_def Let_def)
      next
        case cne: False
        then show ?thesis using \<open>strip raw \<noteq> []\<close> False b c
          by (auto simp add: fields chunk_step_def bounded_def Let_def)
      qed
    qed
  qed
qed

lemma bounded_foldl:
  assumes B1: "chunk_size + 2 \<le> B"
  shows "\<forall>p\<in>set ps. max 0 overlap + int (length (strip p)) + 2 \<le> B \<Longrightarrow> bounded B st \<Longrightarrow>
     bounded B (foldl (chunk_step chunk_size overlap) st ps)"
proof (induction ps arbitrary: st)
  case Nil
  then show ?case by simp
next
  case (Cons p ps)
  have "bounded B (chunk_step chunk_size overlap st p)"
    using B1 Cons.prems by (intro bounded_step) simp_all
  then show ?case using Cons by simp
qed

lemma open_buffer_step_keep:
  "open_buffer st \<Longrightarrow> open_buffer (chunk_step chunk_size overlap st raw)"
  using last_strip [of raw]
  by (cases st) (simp add: open_buffer_def chunk_step_def Let_def nn_def)

lemma open_buffer_step_new:
  "strip raw \<noteq> [] \<Longrightarrow> open_buffer (chunk_step chunk_size overlap st raw)"
  using last_strip [of raw]
  by (cases st) (simp add: open_buffer_def chunk_step_def Let_def nn_def)

lemma open_buffer_foldl:
  "open_buffer st \<or> (\<exists>p\<in>set ps. strip p \<noteq> []) \<Longrightarrow>
     open_buffer (foldl (chunk_step chunk_size overlap) st ps)"
proof (induction ps arbitrary: st)
  case Nil
  then show ?case by simp
next
  case (Cons p ps)
  have "open_buffer (chunk_step chunk_size overlap st p) \<or> (\<exists>q\<in>set ps. strip q \<noteq> [])"
    using Cons.prems open_buffer_step_keep [of st chunk_size overlap p]
      open_buffer_step_new [of p chunk_size overlap st]
    by auto
  then have "open_buffer (foldl (chunk_step chunk_size overlap) (chunk_step chunk_size overlap st p) ps)"
    by (rule Cons.IH)
  then show ?case by simp
qed

lemma strip_nonempty_of_last: "s \<noteq> [] \<Longrightarrow> \<not> isspace (last s) \<Longrightarrow> strip s \<noteq> []"
  using strip_Nil_iff [of s] last_in_set [of s] by blast

lemma split_nn_covers: "c \<in> set t \<Longrightarrow> c = 10 \<or> (\<exists>p\<in>set (split_nn t). c \<in> set p)"
  by (induction t rule: split_nn.induct) (auto split: list.splits if_splits)

section \<open>Chunk indices\<close>

lemma indexed_step: "indexed st \<Longrightarrow> indexed (chunk_step chunk_size overlap st raw)"
  by (cases st) (simp add: indexed_def chunk_step_def Let_def seal_def)

lemma indexed_foldl:
  "indexed st \<Longrightarrow> indexed (foldl (chunk_step chunk_size overlap) st ps)"
  by (induction ps arbitrary: st) (simp_all add: indexed_step)

lemma indexed_loop: "indexed (chunk_loop chunk_size overlap ps)"
  unfolding chunk_loop_def by (rule indexed_foldl) (simp add: indexed_def)

text \<open>
  C1: the \<open>chunk_index\<close> values of the returned chunks are exactly \<open>0, 1, ..., n-1\<close> in
  emission order, where \<open>n\<close> is the number of chunks returned, for every text and every
  configuration.
\<close>

theorem chunk_index_sequential:
  "map chunk_index (split_text_into_chunks chunk_size overlap txt) =
     map int [0..<length (split_text_into_chunks chunk_size overlap txt)]"
proof (cases "chunk_loop chunk_size overlap (split_nn txt)")
  case (fields chunks current_chunk idx)
  have "indexed (chunks, current_chunk, idx)"
    using indexed_loop [of chunk_size overlap "split_nn txt"] fields by simp
  then show ?thesis
    by (simp add: split_text_into_chunks_def fields indexed_def seal_def Let_def)
qed

section \<open>Chunk lengths and the single paragraph\<close>

lemma split_nn_nonempty: "split_nn t \<noteq> []"
  by (induction t rule: split_nn.induct) (auto split: list.splits)

lemma fallback_unreachable:
  assumes "strip txt \<noteq> []"
  shows "open_buffer (chunk_loop chunk_size overlap (split_nn txt))"
proof -
  obtain c where c: "c \<in> set txt" "\<not> isspace c"
    using assms strip_Nil_iff [of "txt"] by blast
  have "c \<noteq> 10" using c(2) by (auto simp add: isspace_def)
  then obtain p where p: "p \<in> set (split_nn txt)" "c \<in> set p"
    using split_nn_covers [OF c(1)] by blast
  have "strip p \<noteq> []" using p(2) c(2) strip_Nil_iff [of p] by blast
  with p(1) have "\<exists>p\<in>set (split_nn txt). strip p \<noteq> []" by blast
  then show ?thesis unfolding chunk_loop_def by (intro open_buffer_foldl) simp
qed

lemma final_buffer_nonempty:
  assumes "strip txt \<noteq> []" and "chunk_loop chunk_size overlap (split_nn txt) = (chunks, cur, idx)"
  shows "strip cur \<noteq> []"
  using fallback_unreachable [OF assms(1), of chunk_size overlap] assms(2)
  by (simp add: open_buffer_def strip_nonempty_of_last)

text \<open>
  C2 (amended): the code does not keep \<open>character_count \<le> chunk_size\<close>.  A chunk is
  a buffer that holds one whole paragraph, or the overlap tail of the sealed buffer
  followed by one whole paragraph, or a buffer extended by a paragraph while the two
  lengths together stayed within \<open>chunk_size\<close>.  So when no trimmed paragraph is longer
  than \<open>L\<close>, every chunk satisfies
  \<open>character_count \<le> max chunk_size (max 0 overlap + L) + 2\<close>.
\<close>

theorem chunk_length_bound:
  assumes "\<forall>p\<in>set (split_nn txt). int (length (strip p)) \<le> L"
  shows "\<forall>c\<in>set (split_text_into_chunks chunk_size overlap txt).
           character_count c \<le> max chunk_size (max 0 overlap + L) + 2"
proof (cases "chunk_loop chunk_size overlap (split_nn txt)")
  case (fields chunks cur idx)
  define B where "B = max chunk_size (max 0 overlap + L) + 2"
  have "bounded B (foldl (chunk_step chunk_size overlap) ([], [], 0) (split_nn txt))"
  proof (rule bounded_foldl)
    show "chunk_size + 2 \<le> B" by (simp add: B_def)
    show "\<forall>p\<in>set (split_nn txt). max 0 overlap + int (length (strip p)) + 2 \<le> B"
      using assms by (auto simp add: B_def)
    obtain p where "p \<in> set (split_nn txt)"
      using split_nn_nonempty [of "txt"] by (cases "split_nn txt") auto
    then have "int (length (strip p)) \<le> L" using assms by blast
    then have "0 \<le> L" by linarith
    then show "bounded B ([], [], 0)" by (simp add: bounded_def B_def)
  qed
  then have b: "list_all (\<lambda>c. character_count c \<le> B) chunks" "int (length cur) \<le> B"
    using fields by (simp_all add: chunk_loop_def bounded_def)
  have s: "character_count (seal cur idx) \<le> B"
    using seal_count_le [of cur idx] b(2) by linarith
  have r: "split_text_into_chunks chunk_size overlap txt = [] \<or>
      split_text_into_chunks chunk_size overlap txt = chunks \<or>
      split_text_into_chunks chunk_size overlap txt = chunks @ [seal cur idx]"
  proof (cases "strip cur = []")
    case True
    then have "strip txt = []" using final_buffer_nonempty [OF _ fields] by blast
    then show ?thesis using True by (simp add: split_text_into_chunks_def fields)
  next
    case False
    then show ?thesis by (simp add: split_text_into_chunks_def fields)
  qed
  have "\<forall>c\<in>set (split_text_into_chunks chunk_size overlap txt). character_count c \<le> B"
    using r b(1) s by (auto simp add: list_all_iff)
  then show ?thesis by (simp only: B_def)
qed

text \<open>
  C7: a text with no paragraph separator (no two adjacent newlines) that is not only
  whitespace gives exactly one chunk, whose text is the whole trimmed input, whatever
  \<open>chunk_size\<close> and \<open>overlap\<close> are.
\<close>

theorem single_paragraph_one_chunk:
  assumes "\<not> has_blank_line txt" and "strip txt \<noteq> []"
  shows "split_text_into_chunks chunk_size overlap txt =
           [\<lparr>chunk_text = strip txt, chunk_index = 0,
             character_count = int (length (strip txt))\<rparr>]"
proof -
  have "txt \<noteq> []" using assms(2) by (auto simp add: strip_Nil)
  moreover have "chunk_loop chunk_size overlap (split_nn txt) = ([], strip txt, 0)"
    using assms by (simp add: split_nn_single chunk_loop_def chunk_step_def)
  ultimately show ?thesis
    using assms(2) by (simp add: split_text_into_chunks_def seal_def strip_strip)
qed

lemma split_nn_pieces_all: "\<forall>p\<in>set (split_nn t). set p \<subseteq> set t"
proof (induction t rule: split_nn.induct)
  case 1
  then show ?case by simp
next
  case (2 c)
  then show ?case by simp
next
  case (3 a b cs)
  show ?case
  proof (cases "a = 10 \<and> b = 10")
    case True
    then show ?thesis using 3(1) by auto
  next
    case False
    then have ih: "\<forall>p\<in>set (split_nn (b # cs)). set p \<subseteq> set (b # cs)"
      using 3(2) by simp
    obtain q qs where q: "split_nn (b # cs) = q # qs"
      using split_nn_nonempty [of "b # cs"] by (cases "split_nn (b # cs)") auto
    have "set q \<subseteq> set (b # cs)" and "\<forall>p\<in>set qs. set p \<subseteq> set (b # cs)"
      using ih q by simp_all
    then show ?thesis using False q by auto
  qed
qed

lemma split_nn_pieces: "p \<in> set (split_nn t) \<Longrightarrow> set p \<subseteq> set t"
  using split_nn_pieces_all by blast

lemma chunk_step_blank: "strip raw = [] \<Longrightarrow> chunk_step chunk_size overlap st raw = st"
  by (cases st) (simp add: chunk_step_def)

lemma foldl_blank:
  "\<forall>p\<in>set ps. strip p = [] \<Longrightarrow> foldl (chunk_step chunk_size overlap) st ps = st"
  by (induction ps arbitrary: st) (simp_all add: chunk_step_blank)

lemma whitespace_only_no_chunks:
  assumes "strip txt = []"
  shows "split_text_into_chunks chunk_size overlap txt = []"
proof -
  have "\<forall>c\<in>set txt. isspace c" using assms by (simp add: strip_Nil_iff)
  then have "\<forall>p\<in>set (split_nn txt). strip p = []"
    using split_nn_pieces strip_Nil_iff by blast
  then have "chunk_loop chunk_size overlap (split_nn txt) = ([], [], 0)"
    unfolding chunk_loop_def by (rule foldl_blank)
  then show ?thesis
    using assms by (simp add: split_text_into_chunks_def strip_Nil)
qed

section \<open>The chunker on concrete documents\<close>

lemma no_newline_no_blank_line: "10 \<notin> set t \<Longrightarrow> \<not> has_blank_line t"
  by (induction t rule: has_blank_line.induct) auto

lemma split_nn_sep: "10 \<notin> set p \<Longrightarrow> split_nn (p @ 10 # 10 # rest) = p # split_nn rest"
proof (induction p)
  case Nil
  then show ?case by simp
next
  case (Cons a p)
  then show ?case by (cases p) auto
qed

lemma split_sample_doc: "split_nn sample_doc = [replicate 90 97, replicate 90 98, [99]]"
proof -
  have "split_nn [99] = [[99]]" by simp
  then have "split_nn (replicate 90 98 @ 10 # 10 # [99]) = [replicate 90 98, [99]]"
    by (simp add: split_nn_sep)
  then show ?thesis
    by (simp add: sample_doc_def split_nn_sep)
qed

lemma strip_replicate: "0 < n \<Longrightarrow> \<not> isspace a \<Longrightarrow> strip (replicate n a) = replicate n a"
  by (rule strip_id) simp_all

lemma loop_sample_doc:
  "chunk_loop 100 20 (split_nn sample_doc) =
     ([\<lparr>chunk_text = replicate 90 97, chunk_index = 0, character_count = 90\<rparr>,
       \<lparr>chunk_text = replicate 20 97 @ 10 # 10 # replicate 90 98, chunk_index = 1,
        character_count = 112\<rparr>],
      replicate 20 98 @ 10 # 10 # [99], 2)"
proof -
  have a: "strip (replicate 90 97) = replicate 90 97" and b: "strip (replicate 90 98) = replicate 90 98"
    by (simp_all add: strip_replicate isspace_def)
  have c: "strip [99] = [99]"
    by (simp add: strip_def isspace_def)
  have d: "strip (replicate 20 97 @ 10 # 10 # replicate 90 98) = replicate 20 97 @ 10 # 10 # replicate 90 98"
    by (rule strip_id) (simp_all add: isspace_def hd_append)
  show ?thesis
    by (simp add: split_sample_doc chunk_loop_def chunk_step_def seal_def last_chars_def nn_def a b c d)
qed

lemma chunks_sample_doc:
  "split_text_into_chunks 100 20 sample_doc =
     [\<lparr>chunk_text = replicate 90 97, chunk_index = 0, character_count = 90\<rparr>,
      \<lparr>chunk_text = replicate 20 97 @ 10 # 10 # replicate 90 98, chunk_index = 1,
       character_count = 112\<rparr>,
      \<lparr>chunk_text = replicate 20 98 @ 10 # 10 # [99], chunk_index = 2,
       character_count = 23\<rparr>]"
proof -
  have "strip (replicate 20 98 @ 10 # 10 # [99]) = replicate 20 98 @ 10 # 10 # [99]"
    by (rule strip_id) (simp_all add: isspace_def hd_append)
  moreover have "sample_doc \<noteq> []" by (simp add: sample_doc_def)
  ultimately show ?thesis
    by (simp add: split_text_into_chunks_def loop_sample_doc seal_def)
qed

text \<open>
  C2, as stated, fails: with \<open>chunk_size = 100\<close> and \<open>overlap = 20\<close> the sample document
  gives three chunks, and the second one, which is not the final one, has 112 characters
  (20 of overlap, the separator, and a paragraph of 90).
\<close>

theorem chunk_exceeds_chunk_size:
  "map character_count (split_text_into_chunks 100 20 sample_doc) = [90, 112, 23] \<and>
   (112::int) > 100"
  by (simp add: chunks_sample_doc)

text \<open>The bound of C2 (amended) on the sample document, where it is reached.\<close>

theorem chunk_length_bound_witness:
  "map (\<lambda>p. int (length (strip p))) (split_nn sample_doc) = [90, 90, 1] \<and>
   list_all (\<lambda>c. character_count c \<le> 112) (split_text_into_chunks 100 20 sample_doc)"
proof -
  have s: "map (\<lambda>p. int (length (strip p))) (split_nn sample_doc) = [90, 90, 1]"
    by (simp add: split_sample_doc strip_replicate isspace_def strip_def)
  then have "\<forall>p\<in>set (split_nn sample_doc). int (length (strip p)) \<le> 90"
    by (simp add: split_sample_doc)
  then have "\<forall>c\<in>set (split_text_into_chunks 100 20 sample_doc).
           character_count c \<le> max 100 (max 0 20 + 90) + 2"
    by (rule chunk_length_bound)
  then show ?thesis using s by (simp add: list_all_iff)
qed

text \<open>C7 on a paragraph of 6000 characters, with \<open>chunk_size = 1000\<close>.\<close>

theorem single_paragraph_one_chunk_witness:
  "\<not> has_blank_line (replicate 6000 97) \<and> strip (replicate 6000 97) \<noteq> [] \<and>
   split_text_into_chunks 1000 200 (replicate 6000 97) =
     [\<lparr>chunk_text = replicate 6000 97, chunk_index = 0, character_count = 6000\<rparr>]"
proof -
  have a: "\<not> has_blank_line (replicate 6000 97)"
    by (rule no_newline_no_blank_line) simp
  have s: "strip (replicate 6000 97) = replicate 6000 97"
    by (simp add: strip_replicate isspace_def)
  then have b: "strip (replicate 6000 97) \<noteq> []" by simp
  show ?thesis
    using single_paragraph_one_chunk [OF a b, of 1000 200] a s by simp
qed

text \<open>C1 on the sample document.\<close>

theorem chunk_index_sequential_witness:
  "map chunk_index (split_text_into_chunks 100 20 sample_doc) = [0, 1, 2]"
proof -
  have "length (split_text_into_chunks 100 20 sample_doc) = 3"
    by (simp add: chunks_sample_doc)
  then show ?thesis
    using chunk_index_sequential [of 100 20 sample_doc] by (simp add: upt_rec)
qed

section \<open>Embeddings: all or nothing\<close>

lemma length_replies: "length (replies post m s ts) = length ts"
  by (induction ts arbitrary: s) (auto split: prod.splits)

lemma embed_loop_all:
  "list_all answered (replies post m s ts) \<Longrightarrow>
     fst (embed_loop post m s ts acc) = Inr (acc @ map embedding_of (replies post m s ts))"
proof (induction ts arbitrary: s acc)
  case Nil
  then show ?case by simp
next
  case (Cons t ts)
  obtain r s' where p: "post s m t = (r, s')" by (cases "post s m t")
  from Cons.prems p have a: "answered r" and rest: "list_all answered (replies post m s' ts)"
    by simp_all
  from a obtain emb where r: "r = Response 200 (JsonObject emb)"
    by (auto simp add: answered_def vector_of_def split: reply.splits json_body.splits if_splits)
  have e: "embedding_of (Response 200 (JsonObject emb)) = (case emb of None \<Rightarrow> [] | Some v \<Rightarrow> v)"
    by (simp add: embedding_of_def vector_of_def)
  show ?case
    using Cons.IH [OF rest, of "acc @ [embedding_of r]"] p
    by (simp add: r e)
qed

lemma embed_loop_some_fail:
  "\<not> list_all answered (replies post m s ts) \<Longrightarrow> \<exists>e. fst (embed_loop post m s ts acc) = Inl e"
proof (induction ts arbitrary: s acc)
  case Nil
  then show ?case by simp
next
  case (Cons t ts)
  obtain r s' where p: "post s m t = (r, s')" by (cases "post s m t")
  show ?case
  proof (cases "answered r")
    case True
    then obtain emb where r: "r = Response 200 (JsonObject emb)"
      by (auto simp add: answered_def vector_of_def split: reply.splits json_body.splits if_splits)
    from Cons.prems p True have "\<not> list_all answered (replies post m s' ts)" by simp
    then show ?thesis
      using Cons.IH [of s' "acc @ [case emb of None \<Rightarrow> [] | Some v \<Rightarrow> v]"] p by (simp add: r)
  next
    case False
    then show ?thesis using p
      by (auto simp add: answered_def vector_of_def split: reply.splits json_body.splits if_splits)
  qed
qed

text \<open>
  C3: \<open>replies\<close> lists what the provider answers to the texts, one call per text in
  input order.  If every reply is a 200 response with a JSON object, the result is a
  success with exactly one embedding per text, the \<open>i\<close>-th being the provider's
  embedding for the \<open>i\<close>-th text.  If any reply is not, the result is a failure that
  carries no embedding list at all: the embeddings already obtained are dropped.
\<close>

theorem generate_embeddings_all_or_nothing:
  "(if list_all answered (replies post m s texts)
    then fst (generate_embeddings post m s texts) =
           \<lparr>success = True, error = None,
            body = Some \<lparr>embeddings = map embedding_of (replies post m s texts),
                         emb_count = int (length texts), emb_model = m\<rparr>\<rparr>
    else \<not> success (fst (generate_embeddings post m s texts)) \<and>
         body (fst (generate_embeddings post m s texts)) = None)"
proof (cases "list_all answered (replies post m s texts)")
  case True
  have "fst (embed_loop post m s texts []) = Inr (map embedding_of (replies post m s texts))"
    using embed_loop_all [OF True, of "[]"] by simp
  then show ?thesis
    using True
    by (cases "embed_loop post m s texts []")
      (simp add: generate_embeddings_def succeed_def length_replies)
next
  case False
  obtain e where "fst (embed_loop post m s texts []) = Inl e"
    using embed_loop_some_fail [OF False] by blast
  then show ?thesis
    using False
    by (cases "embed_loop post m s texts []") (simp add: generate_embeddings_def failure_def)
qed

lemma replies_flaky:
  "replies flaky_provider m 0 [[97], [98], [99]] =
     [Response 200 (JsonObject (Some [97])), Response 500 (BadJson []),
      Response 200 (JsonObject (Some [99]))]"
  by (simp add: flaky_provider_def)

text \<open>
  C3 on the texts \<open>a\<close>, \<open>b\<close>, \<open>c\<close> with a provider whose second call fails, and on
  one text that is answered.
\<close>

theorem generate_embeddings_all_or_nothing_witness:
  "\<not> list_all answered (replies flaky_provider [] 0 [[97], [98], [99]]) \<and>
   \<not> success (fst (generate_embeddings flaky_provider [] 0 [[97], [98], [99]])) \<and>
   body (fst (generate_embeddings flaky_provider [] 0 [[97], [98], [99]])) = None \<and>
   list_all answered (replies flaky_provider [] 0 [[97]]) \<and>
   fst (generate_embeddings flaky_provider [] 0 [[97]]) =
     \<lparr>success = True, error = None,
      body = Some \<lparr>embeddings = [[97]], emb_count = 1, emb_model = []\<rparr>\<rparr>"
proof -
  have a: "\<not> list_all answered (replies flaky_provider [] 0 [[97], [98], [99]])"
    unfolding replies_flaky by (simp add: answered_def vector_of_def)
  have b: "list_all answered (replies flaky_provider [] 0 [[97]])"
    by (simp add: flaky_provider_def answered_def vector_of_def)
  have c: "map embedding_of (replies flaky_provider [] 0 [[97]]) = [[97]]"
    by (simp add: flaky_provider_def embedding_of_def vector_of_def)
  show ?thesis
    using generate_embeddings_all_or_nothing [of flaky_provider "[]" 0 "[[97], [98], [99]]"]
      generate_embeddings_all_or_nothing [of flaky_provider "[]" 0 "[[97]]"] a b c
    by simp
qed

section \<open>The prompt without context\<close>

text \<open>
  C5: with an empty context the prompt builder returns the base system prompt
  unchanged, for every base prompt and every query.
\<close>

theorem prompt_unchanged_without_context:
  "build_enhanced_system_prompt base_prompt [] query = base_prompt"
  by (simp add: build_enhanced_system_prompt_def)

text \<open>C5 on a concrete prompt and query.\<close>

theorem prompt_unchanged_without_context_witness:
  "build_enhanced_system_prompt [104, 105] [] [113] = [104, 105]"
  using prompt_unchanged_without_context [of "[104, 105]" "[113]"] by simp

section \<open>Source attribution\<close>

lemma first_seen_snoc:
  "first_seen (xs @ [x]) = (if x \<in> set xs then first_seen xs else first_seen xs @ [x])"
  by (simp add: first_seen_def)

lemma set_first_seen: "set (first_seen xs) = set xs"
  by (simp add: first_seen_def)

lemma distinct_first_seen: "distinct (first_seen xs)"
  by (simp add: first_seen_def)

lemma document_ids_snoc:
  "doc_of h = Some d \<Longrightarrow> document_ids (hs @ [h]) = document_ids hs @ [d]"
  by (simp add: document_ids_def map_filter_def)

lemma hits_of_snoc:
  "hits_of d (hs @ [h]) = (if doc_of h = Some d then hits_of d hs @ [h] else hits_of d hs)"
  by (simp add: hits_of_def)

lemma hits_of_empty_iff: "hits_of d hs = [] \<longleftrightarrow> d \<notin> set (document_ids hs)"
  by (induction hs) (auto simp add: hits_of_def document_ids_def map_filter_def)

lemma attribution_other:
  "doc_of h \<noteq> Some d \<Longrightarrow> attribution (hs @ [h]) d = attribution hs d"
  by (simp add: attribution_def hits_of_snoc)

lemma attribution_new:
  assumes "doc_of h = Some d" and "hits_of d hs = []"
  shows "attribution (hs @ [h]) d =
           \<lparr>document_id = d, filename = get_filename (get_metadata h),
            relevance_score = get_score h, chunk_count = 1\<rparr>"
  using assms by (simp add: attribution_def hits_of_snoc)

lemma attribution_again:
  assumes "doc_of h = Some d" and "hits_of d hs \<noteq> []"
  shows "attribution (hs @ [h]) d =
           (attribution hs d)\<lparr>chunk_count := chunk_count (attribution hs d) + 1,
             relevance_score := (if get_score h > relevance_score (attribution hs d)
                                 then get_score h else relevance_score (attribution hs d))\<rparr>"
proof -
  define m where "m = Max (set (map get_score (hits_of d hs)))"
  have hs': "hits_of d (hs @ [h]) = hits_of d hs @ [h]"
    using assms(1) by (simp add: hits_of_snoc)
  have f: "finite (set (map get_score (hits_of d hs)))" by simp
  have n: "set (map get_score (hits_of d hs)) \<noteq> {}" using assms(2) by simp
  have "Max (insert (get_score h) (set (map get_score (hits_of d hs)))) = max (get_score h) m"
    unfolding m_def using f n by (rule Max_insert)
  moreover have "set (map get_score (hits_of d hs @ [h])) =
      insert (get_score h) (set (map get_score (hits_of d hs)))"
    by simp
  ultimately have "Max (set (map get_score (hits_of d hs @ [h]))) = max (get_score h) m"
    by (simp only:)
  also have "\<dots> = (if get_score h > m then get_score h else m)"
    by (simp add: max_def not_less)
  finally have M: "Max (set (map get_score (hits_of d hs @ [h]))) =
      (if get_score h > m then get_score h else m)" .
  have hd': "hd (hits_of d hs @ [h]) = hd (hits_of d hs)"
    using assms(2) by simp
  show ?thesis
    unfolding attribution_def hs' M hd' m_def [symmetric] by simp
qed

lemma update_source_map:
  assumes "doc_of h = Some d" and "hits_of d hs \<noteq> []"
  shows "distinct ds \<Longrightarrow> d \<in> set ds \<Longrightarrow>
           update_source d (get_score h) (map (attribution hs) ds) =
             map (attribution (hs @ [h])) ds"
proof (induction ds)
  case Nil
  then show ?case by simp
next
  case (Cons a ds)
  have id: "document_id (attribution hs a) = a" by (simp add: attribution_def)
  show ?case
  proof (cases "a = d")
    case True
    then have "d \<notin> set ds" using Cons.prems(1) by simp
    then have "\<forall>x\<in>set ds. doc_of h \<noteq> Some x" using assms(1) by auto
    then have "map (attribution (hs @ [h])) ds = map (attribution hs) ds"
      by (simp add: attribution_other)
    then show ?thesis
      using True id attribution_again [OF assms] by simp
  next
    case False
    then have "doc_of h \<noteq> Some a" using assms(1) by auto
    then have "attribution (hs @ [h]) a = attribution hs a" by (rule attribution_other)
    moreover have "update_source d (get_score h) (map (attribution hs) ds) =
        map (attribution (hs @ [h])) ds"
      using Cons False by simp
    ultimately show ?thesis using False id by simp
  qed
qed

lemma sources_step_new:
  assumes "doc_of h = Some d" and "d \<noteq> []" and "d \<notin> seen"
  shows "sources_step (srcs, seen) h =
           (srcs @ [\<lparr>document_id = d, filename = get_filename (get_metadata h),
                      relevance_score = get_score h, chunk_count = 1\<rparr>], insert d seen)"
  using assms by (simp add: sources_step_def doc_of_def)

lemma sources_step_seen:
  assumes "doc_of h = Some d" and "d \<in> seen"
  shows "sources_step (srcs, seen) h = (update_source d (get_score h) srcs, seen)"
  using assms by (simp add: sources_step_def doc_of_def)

lemma sources_loop:
  "list_all carries_document_id hits \<Longrightarrow>
     foldl sources_step ([], {}) hits =
       (map (attribution hits) (first_seen (document_ids hits)), set (document_ids hits))"
proof (induction hits rule: rev_induct)
  case Nil
  then show ?case by (simp add: first_seen_def document_ids_def map_filter_def)
next
  case (snoc h hs)
  from snoc.prems obtain d where d: "doc_of h = Some d" "d \<noteq> []"
    by (auto simp add: carries_document_id_def split: option.splits)
  have ih: "foldl sources_step ([], {}) hs =
       (map (attribution hs) (first_seen (document_ids hs)), set (document_ids hs))"
    using snoc by simp
  have unfold: "foldl sources_step ([], {}) (hs @ [h]) =
      sources_step (map (attribution hs) (first_seen (document_ids hs)), set (document_ids hs)) h"
    by (simp add: ih)
  have ids: "document_ids (hs @ [h]) = document_ids hs @ [d]"
    using d(1) by (rule document_ids_snoc)
  show ?case
  proof (cases "d \<in> set (document_ids hs)")
    case True
    then have ne: "hits_of d hs \<noteq> []" by (simp add: hits_of_empty_iff)
    have u: "update_source d (get_score h) (map (attribution hs) (first_seen (document_ids hs))) =
            map (attribution (hs @ [h])) (first_seen (document_ids hs))"
      using True by (intro update_source_map [OF d(1) ne]) (simp_all add: distinct_first_seen set_first_seen)
    have fs: "first_seen (document_ids hs @ [d]) = first_seen (document_ids hs)"
      using True by (simp add: first_seen_snoc)
    have st: "set (document_ids hs @ [d]) = set (document_ids hs)"
      using True by auto
    show ?thesis
      unfolding unfold sources_step_seen [OF d(1) True] ids fs st u ..
  next
    case False
    then have e: "hits_of d hs = []" by (simp add: hits_of_empty_iff)
    have "\<forall>x\<in>set (first_seen (document_ids hs)). doc_of h \<noteq> Some x"
      using False d(1) by (auto simp add: set_first_seen)
    then have m: "map (attribution (hs @ [h])) (first_seen (document_ids hs)) =
        map (attribution hs) (first_seen (document_ids hs))"
      by (simp add: attribution_other)
    have fs: "first_seen (document_ids hs @ [d]) = first_seen (document_ids hs) @ [d]"
      using False by (simp add: first_seen_snoc)
    show ?thesis
      unfolding unfold sources_step_new [OF d(1) d(2) False] ids fs
      by (simp add: m attribution_new [OF d(1) e])
  qed
qed

text \<open>
  C4: when every hit carries a document id (present and not empty),
  \<open>_extract_sources_info\<close> returns one source per distinct document id, in first-seen
  order; its \<open>relevance_score\<close> is the maximum score of the hits of that document and
  its \<open>chunk_count\<close> is their number (the file name is that of the first such hit).
\<close>

theorem sources_one_per_document:
  assumes "list_all carries_document_id hits"
  shows "extract_sources_info hits =
           map (attribution hits) (first_seen (document_ids hits))"
  using sources_loop [OF assms] by (simp add: extract_sources_info_def)

text \<open>
  C4 on three hits: two of one document, with scores 0.85 and 0.9, around one of
  another document.
\<close>

theorem sources_one_per_document_witness:
  "list_all carries_document_id
     [scored_hit [100] [102] (85 / 100), scored_hit [101] [103] (7 / 10),
      scored_hit [100] [102] (9 / 10)] \<and>
   extract_sources_info
     [scored_hit [100] [102] (85 / 100), scored_hit [101] [103] (7 / 10),
      scored_hit [100] [102] (9 / 10)] =
     [\<lparr>document_id = [100], filename = Some [102], relevance_score = 9 / 10, chunk_count = 2\<rparr>,
      \<lparr>document_id = [101], filename = Some [103], relevance_score = 7 / 10, chunk_count = 1\<rparr>]"
proof -
  let ?hits = "[scored_hit [100] [102] (85 / 100), scored_hit [101] [103] (7 / 10),
      scored_hit [100] [102] (9 / 10)]"
  have d: "doc_of (scored_hit doc fname sc) = Some doc" for doc fname sc
    by (simp add: doc_of_def scored_hit_def get_metadata_def empty_payload_def get_or_def)
  have f: "get_filename (get_metadata (scored_hit doc fname sc)) = Some fname" for doc fname sc
    by (simp add: get_filename_def scored_hit_def get_metadata_def empty_payload_def get_or_def)
  have g: "get_score (scored_hit doc fname sc) = sc" for doc fname sc
    by (simp add: get_score_def scored_hit_def)
  have a: "list_all carries_document_id ?hits"
    by (simp add: carries_document_id_def d)
  have i: "first_seen (document_ids ?hits) = [[100], [101]]"
    by (simp add: first_seen_def document_ids_def map_filter_def d)
  have "map (attribution ?hits) [[100], [101]] =
     [\<lparr>document_id = [100], filename = Some [102], relevance_score = 9 / 10, chunk_count = 2\<rparr>,
      \<lparr>document_id = [101], filename = Some [103], relevance_score = 7 / 10, chunk_count = 1\<rparr>]"
    by (simp add: attribution_def hits_of_def d f g)
  then show ?thesis
    using a sources_one_per_document [OF a] i by simp
qed

section \<open>Context assembly\<close>





text \<open>
  Outside the stored hits the assembler does more than the blocks: a hit whose trimmed
  text is empty is left out, and a \<open>chunk_index\<close> stored as \<open>null\<close> raises.
\<close>

lemma context_skips_blank_hit:
  "hit_text h = Value t \<Longrightarrow> strip t = [] \<Longrightarrow> context_parts i (h # hs) = context_parts (Suc i) hs"
  by (simp add: get_or_def)

lemma context_raises_on_null_index:
  "hit_text h = Value t \<Longrightarrow> strip t \<noteq> [] \<Longrightarrow> p_chunk_index (get_metadata h) = Null \<Longrightarrow>
     build_context_from_chunks (h # hs) = Inl TypeError"
  by (simp add: build_context_from_chunks_def get_or_def)

section \<open>The adapter without a client\<close>

text \<open>
  C8: when the adapter has no client, each of \<open>add_documents\<close>, \<open>search_similar\<close>,
  \<open>get_document_chunks\<close>, \<open>delete_document\<close> and \<open>get_collection_info\<close> returns the
  failure dictionary with the error \<open>Qdrant client not available\<close>, and leaves the
  world as it was: no request is sent, and nothing is raised.
\<close>

theorem degraded_mode_reports_unavailable:
  assumes "client svc = None"
  shows "add_documents svc uuid4 texts embs metas w =
           (\<lparr>success = False, error = Some (ascii ''Qdrant client not available''), body = None\<rparr>, w) \<and>
         search_similar env svc query_embedding limit score_threshold filter_conditions w =
           (\<lparr>success = False, error = Some (ascii ''Qdrant client not available''), body = None\<rparr>, w) \<and>
         get_document_chunks env svc doc_id w =
           (\<lparr>success = False, error = Some (ascii ''Qdrant client not available''), body = None\<rparr>, w) \<and>
         delete_document env svc doc_id w =
           (\<lparr>success = False, error = Some (ascii ''Qdrant client not available''), body = None\<rparr>, w) \<and>
         get_collection_info svc w =
           (\<lparr>success = False, error = Some (ascii ''Qdrant client not available''), body = None\<rparr>, w)"
  using assms
  by (simp add: add_documents_def search_similar_def get_document_chunks_def
      delete_document_def get_collection_info_def failure_def not_available_def)

text \<open>C8 on an adapter whose client constructor raised.\<close>

theorem degraded_mode_reports_unavailable_witness:
  "client unreachable_service = None \<and>
   add_documents unreachable_service (\<lambda>n. [n]) [[97]] [[1, 2, 3]] [empty_payload] long_world =
     (\<lparr>success = False, error = Some (ascii ''Qdrant client not available''), body = None\<rparr>, long_world) \<and>
   search_similar union_env unreachable_service [1, 2, 3] 5 (7 / 10) None long_world =
     (\<lparr>success = False, error = Some (ascii ''Qdrant client not available''), body = None\<rparr>, long_world) \<and>
   get_document_chunks union_env unreachable_service [100] long_world =
     (\<lparr>success = False, error = Some (ascii ''Qdrant client not available''), body = None\<rparr>, long_world) \<and>
   delete_document union_env unreachable_service [100] long_world =
     (\<lparr>success = False, error = Some (ascii ''Qdrant client not available''), body = None\<rparr>, long_world) \<and>
   get_collection_info unreachable_service long_world =
     (\<lparr>success = False, error = Some (ascii ''Qdrant client not available''), body = None\<rparr>, long_world)"
proof -
  have c: "client unreachable_service = None"
    by (simp add: unreachable_service_def init_def)
  show ?thesis
    using c degraded_mode_reports_unavailable [OF c, of "\<lambda>n. [n]" "[[97]]" "[[1, 2, 3]]"
        "[empty_payload]" long_world union_env "[1, 2, 3]" 5 "7 / 10" None "[100]"]
    by simp
qed

section \<open>Mismatched lengths\<close>

text \<open>
  C10: when the three lists do not have the same length, \<open>add_documents\<close> returns a
  failure and leaves the world as it was: no identifier is drawn (no point is built),
  no upsert is sent, and the store is unchanged.
\<close>

theorem mismatched_lengths_rejected:
  assumes "length texts \<noteq> length embs \<or> length texts \<noteq> length metas"
  shows "add_documents svc uuid4 texts embs metas w =
           (\<lparr>success = False,
             error = Some (if client svc = None then ascii ''Qdrant client not available''
                           else ascii ''Mismatched input lengths''),
             body = None\<rparr>, w)"
  using assms
  by (cases "client svc") (auto simp add: add_documents_def failure_def not_available_def)

text \<open>C10 on two texts, one embedding and two metadata dictionaries.\<close>

theorem mismatched_lengths_rejected_witness:
  "length [[97], [98::nat]] \<noteq> length [[1, 2, 3::nat]] \<and>
   add_documents memory_service (\<lambda>n. [n]) [[97], [98]] [[1, 2, 3]] [empty_payload, empty_payload]
       long_world =
     (\<lparr>success = False, error = Some (ascii ''Mismatched input lengths''), body = None\<rparr>,
      long_world)"
proof -
  have l: "length [[97], [98::nat]] \<noteq> length [[1, 2, 3::nat]]" by simp
  then have "length [[97], [98::nat]] \<noteq> length [[1, 2, 3::nat]] \<or>
      length [[97], [98::nat]] \<noteq> length [empty_payload, empty_payload]"
    by (rule disjI1)
  then show ?thesis
    using l mismatched_lengths_rejected [of "[[97], [98]]" "[[1, 2, 3]]"
        "[empty_payload, empty_payload]" memory_service "\<lambda>n. [n]" long_world]
    by (simp add: memory_service_def)
qed

section \<open>The document summary\<close>


lemma delete_document_at_match:
  assumes "client svc = Some c" and "match_raises env doc_id = Some e"
  shows "delete_document env svc doc_id w = (failure e, w)"
  using assms by (simp add: delete_document_def)



text \<open>
  What the summary would send if \<open>Match\<close> returned a condition and the stored texts and
  indices were not \<open>null\<close>: one scroll with the equality filter, and one completion call
  with the first 4000 characters of the texts, in the order of the indices and joined
  with single spaces.
\<close>

lemma summary_requests:
  assumes "client svc = Some c"
    and "match_raises env doc_id = None"
    and "scroll c (collection_name svc) [(''document_id'', doc_id)] 1000 (store w) = (Inr pts, st')"
    and "pts \<noteq> []"
    and "sort_chunks env (map format_chunk pts) = Inr cs"
    and "join_items 0 (map dc_text cs) = Inr texts"
  shows "requests (snd (get_document_summary env svc post settings doc_id w)) =
           requests w @
           [Scroll (collection_name svc) [(''document_id'', doc_id)] 1000,
            ChatCompletion (chat_model settings)
              (ascii ''System: '' @ summary_system_prompt @ [10, 10] @
               ascii ''Human: '' @ (summary_instruction @ take 4000 (join [32] texts))
               @ [10, 10] @ ascii ''Assistant: '')]"
proof -
  have "length cs = length pts"
    using assms(5) by (auto simp add: sort_chunks_def split: if_splits)
  then have ne: "cs \<noteq> []"
    using assms(4) by auto
  have chunks: "get_document_chunks env svc doc_id w =
      (succeed \<lparr>doc_chunks = cs, chunks_count = int (length cs)\<rparr>,
       w\<lparr>store := st',
         requests := requests w @ [Scroll (collection_name svc) [(''document_id'', doc_id)] 1000]\<rparr>)"
    using assms(1,2,3,5) by (simp add: get_document_chunks_def call_def)
  have roles: "ascii ''user'' \<noteq> ascii ''system''"
    by (simp add: ascii_def)
  have fmt: "format_messages_for_ollama
        [\<lparr>role = ascii ''system'', content = sp\<rparr>, \<lparr>role = ascii ''user'', content = up\<rparr>] =
      ascii ''System: '' @ sp @ [10, 10] @ ascii ''Human: '' @ up @ [10, 10] @ ascii ''Assistant: ''"
    for sp up
    using roles by simp
  have chat: "requests (snd (generate_chat_response post settings
        [\<lparr>role = ascii ''user'', content = up\<rparr>] (Some sp) None w1)) =
      requests w1 @ [ChatCompletion (chat_model settings)
        (ascii ''System: '' @ sp @ [10, 10] @ ascii ''Human: '' @ up @ [10, 10] @ ascii ''Assistant: '')]"
    for sp up and w1 :: "('a, 'c, 'b) world"
    unfolding generate_chat_response_def Let_def fmt
    by (simp split: prod.splits chat_reply.splits chat_body.splits)
  have summary: "requests (snd (get_document_summary env svc post settings doc_id w)) =
      requests (snd (generate_chat_response post settings
        [\<lparr>role = ascii ''user'', content = summary_prompt (join [32] texts)\<rparr>]
        (Some summary_system_prompt) None
        (w\<lparr>store := st',
           requests := requests w @ [Scroll (collection_name svc) [(''document_id'', doc_id)] 1000]\<rparr>)))"
    using ne assms(6)
    by (simp add: get_document_summary_def chunks succeed_def Let_def
        split: prod.splits chat_result.splits)
  show ?thesis
    unfolding summary chat by (simp add: summary_prompt_def)
qed

end
